theory Spec2Isabelle
  imports Main
begin

section \<open>The upgrade command (src/cli/commands/upgrade.js)\<close>

subsection \<open>Strings\<close>

text \<open>
  JavaScript strings are modelled as \<^typ>\<open>string\<close>; \<open>startsWith\<close> and \<open>endsWith\<close> are the
  methods of \<open>String.prototype\<close>, and a template literal is a concatenation.
\<close>

definition startsWith :: "string \<Rightarrow> string \<Rightarrow> bool" where
  "startsWith s p \<longleftrightarrow> take (length p) s = p"

definition endsWith :: "string \<Rightarrow> string \<Rightarrow> bool" where
  "endsWith s p \<longleftrightarrow> length p \<le> length s \<and> drop (length s - length p) s = p"

subsection \<open>Data\<close>

text \<open>
  The \<open>Dependency\<close> record of the outdated check. The field \<open>range\<close> of the source is
  \<open>range'\<close> here, since \<open>range\<close> is a constant of HOL.
\<close>

record Dependency =
  name :: string
  current :: string
  wanted :: string
  latest :: string
  url :: string
  hint :: string
  range' :: string
  latestPattern :: string

text \<open>
  The \<open>flags\<close> object that commander hands to the command. A flag that was not given is
  \<open>undefined\<close> (\<open>None\<close>). Every further property of the object lives in the extension of
  the record (\<open>more\<close>).
\<close>

record Flags =
  scope :: "string option"
  latest :: "bool option"
  exact :: "bool option"
  tilde :: "bool option"
  caret :: "bool option"
  force :: "bool option"

text \<open>JavaScript truthiness of a boolean flag and of a string flag.\<close>

definition truthy :: "bool option \<Rightarrow> bool" where
  "truthy v \<longleftrightarrow> v = Some True"

definition truthyStr :: "string option \<Rightarrow> bool" where
  "truthyStr v \<longleftrightarrow> (case v of None \<Rightarrow> False | Some s \<Rightarrow> s \<noteq> [])"

subsection \<open>basicSemverOperatorRegex\<close>

text \<open>
  \<^verbatim>\<open>new RegExp('^(\\^|~|>|<=|>=)?[^ |&,]+$')\<close>. The regular expression has no flag, so
  \<open>exec\<close> starts at index 0 and keeps no state. The tail \<^verbatim>\<open>[^ |&,]+$\<close> must take the whole
  rest of the input; the optional group tries its alternatives from left to right and is
  skipped when none of them lets the tail match.
\<close>

definition isSeparator :: "char \<Rightarrow> bool" where
  "isSeparator c \<longleftrightarrow> c = CHR '' '' \<or> c = CHR ''|'' \<or> c = CHR ''&'' \<or> c = CHR '',''"

definition versionBody :: "string \<Rightarrow> bool" where
  "versionBody s \<longleftrightarrow> s \<noteq> [] \<and> list_all (\<lambda>c. \<not> isSeparator c) s"

definition operatorAlternatives :: "string list" where
  "operatorAlternatives = [''^'', ''~'', ''>'', ''<='', ''>='']"

fun matchOperator :: "string list \<Rightarrow> string \<Rightarrow> string option" where
  "matchOperator [] s = None"
| "matchOperator (alt # alts) s =
     (if startsWith s alt \<and> versionBody (drop (length alt) s) then Some alt
      else matchOperator alts s)"

text \<open>
  The result of \<open>exec\<close>: \<open>None\<close> is \<open>null\<close>; otherwise the value is capture group 1 of the
  match array, \<open>None\<close> when the group took no part in the match (\<open>undefined\<close>).
\<close>

definition basicSemverOperatorRegex_exec :: "string \<Rightarrow> string option option" where
  "basicSemverOperatorRegex_exec version =
     (case matchOperator operatorAlternatives version of
        Some alt \<Rightarrow> Some (Some alt)
      | None \<Rightarrow> if versionBody version then Some None else None)"

definition getRangeOperator :: "string \<Rightarrow> string" where
  "getRangeOperator version =
     (case basicSemverOperatorRegex_exec version of
        None \<Rightarrow> ''^''
      | Some group1 \<Rightarrow>
          (case group1 of None \<Rightarrow> '''' | Some alt \<Rightarrow> if alt \<noteq> [] then alt else ''''))"

definition buildPatternToUpgradeTo :: "Dependency \<Rightarrow> 'a Flags_scheme \<Rightarrow> string" where
  "buildPatternToUpgradeTo dep flags =
     (let toLatest = truthy (Flags.latest flags);
          toVersion = (if toLatest then Dependency.latest dep else range' dep);
          rangeOperator =
            (if toLatest then
               (if truthy (caret flags) then ''^''
                else if truthy (tilde flags) then ''~''
                else if truthy (exact flags) then ''''
                else getRangeOperator (range' dep))
             else '''')
      in name dep @ ''@'' @ rangeOperator @ toVersion)"

subsection \<open>validScopeRegex\<close>

text \<open>
  \<^verbatim>\<open>/^@[a-zA-Z0-9-][a-zA-Z0-9_.-]*\/$/g\<close>. The regular expression is a constant of the
  module and carries the flag \<open>g\<close>, so its \<open>lastIndex\<close> is state that outlives a call of
  \<open>test\<close>: a search starts at \<open>lastIndex\<close>, a match stores the index of its end there, and a
  failure stores 0.
\<close>

definition isAlnum :: "char \<Rightarrow> bool" where
  "isAlnum c \<longleftrightarrow>
     (let n = (of_char c :: nat)
      in (97 \<le> n \<and> n \<le> 122) \<or> (65 \<le> n \<and> n \<le> 90) \<or> (48 \<le> n \<and> n \<le> 57))"

definition scopeFirstChar :: "char \<Rightarrow> bool" where
  "scopeFirstChar c \<longleftrightarrow> isAlnum c \<or> c = CHR ''-''"

definition scopeChar :: "char \<Rightarrow> bool" where
  "scopeChar c \<longleftrightarrow> isAlnum c \<or> c = CHR ''_'' \<or> c = CHR ''.'' \<or> c = CHR ''-''"

text \<open>\<^verbatim>\<open>[a-zA-Z0-9_.-]*\/$\<close>: the class excludes the slash, so the star has one way to stop.\<close>

fun scopeTail :: "string \<Rightarrow> bool" where
  "scopeTail [] = False"
| "scopeTail (c # cs) = (if scopeChar c then scopeTail cs else c = CHR ''/'' \<and> cs = [])"

text \<open>
  A match attempt at index \<open>i\<close>, returning the index of the end of the match. \<^verbatim>\<open>^\<close> holds
  at index 0 only (there is no flag \<open>m\<close>), and \<^verbatim>\<open>$\<close> at the end of the input only.
\<close>

definition validScopeRegex_matchAt :: "string \<Rightarrow> nat \<Rightarrow> nat option" where
  "validScopeRegex_matchAt s i =
     (if i = 0 then
        (case s of
           c1 # c2 # cs \<Rightarrow>
             if c1 = CHR ''@'' \<and> scopeFirstChar c2 \<and> scopeTail cs then Some (length s) else None
         | _ \<Rightarrow> None)
      else None)"

fun firstMatch :: "string \<Rightarrow> nat list \<Rightarrow> nat option" where
  "firstMatch s [] = None"
| "firstMatch s (i # is) =
     (case validScopeRegex_matchAt s i of Some e \<Rightarrow> Some e | None \<Rightarrow> firstMatch s is)"

text \<open>\<open>validScopeRegex.test(s)\<close> from the state \<open>lastIndex\<close>: the answer and the new \<open>lastIndex\<close>.\<close>

definition validScopeRegex_test :: "nat \<Rightarrow> string \<Rightarrow> bool \<times> nat" where
  "validScopeRegex_test lastIndex s =
     (if lastIndex > length s then (False, 0)
      else (case firstMatch s [lastIndex ..< Suc (length s)] of
              None \<Rightarrow> (False, 0)
            | Some e \<Rightarrow> (True, e)))"

subsection \<open>getOutdated\<close>

text \<open>
  \<open>PackageRequest.getOutdatedPackages\<close> is not part of these sources: its answer for a
  lockfile and a list of patterns is the parameter \<open>getOutdatedPackages\<close> (the installer
  built from the flags, the configuration and the reporter are fixed with it). The call
  is awaited before the first assignment to \<open>flags\<close>, so a rejection leaves \<open>getOutdated\<close>
  with nothing changed; the model is of the call that gets an answer. The function
  mutates \<open>flags\<close> and the \<open>lastIndex\<close> of \<open>validScopeRegex\<close>; the model returns both with
  the dependency list.
\<close>

definition normalizeScope :: "string \<Rightarrow> string" where
  "normalizeScope s =
     (let s1 = (if \<not> startsWith s ''@'' then ''@'' @ s else s)
      in if \<not> endsWith s1 ''/'' then s1 @ ''/'' else s1)"

text \<open>
  Lines 127 to 139, the block under \<open>if (flags.scope)\<close>: \<open>flags.scope\<close> is rewritten, the
  regular expression is tested (and its \<open>lastIndex\<close> moves), and the list is filtered when
  the test succeeds.
\<close>

definition applyScope ::
  "nat \<Rightarrow> 'a Flags_scheme \<Rightarrow> Dependency list \<Rightarrow> Dependency list \<times> 'a Flags_scheme \<times> nat" where
  "applyScope lastIndex flags deps =
     (case scope flags of
        None \<Rightarrow> (deps, flags, lastIndex)
      | Some s \<Rightarrow>
          if s = [] then (deps, flags, lastIndex)
          else
            (case validScopeRegex_test lastIndex (normalizeScope s) of
               (valid, lastIndex') \<Rightarrow>
                 ((if valid then filter (\<lambda>dep. startsWith (name dep) (normalizeScope s)) deps
                   else deps),
                  flags\<lparr>scope := Some (normalizeScope s)\<rparr>, lastIndex')))"

text \<open>Lines 141 to 146, the block under \<open>if (!flags.latest)\<close>.\<close>

definition resetRangeFlags :: "'a Flags_scheme \<Rightarrow> 'a Flags_scheme" where
  "resetRangeFlags flags =
     (if \<not> truthy (Flags.latest flags)
      then flags\<lparr>tilde := Some False, exact := Some False, caret := Some False\<rparr>
      else flags)"

text \<open>Lines 91 and 123 to 125: the field compared with \<open>current\<close>, and the filter.\<close>

definition isOutdated :: "'a Flags_scheme \<Rightarrow> Dependency \<Rightarrow> bool" where
  "isOutdated flags dep \<longleftrightarrow>
     current dep \<noteq> (if truthy (Flags.latest flags) then Dependency.latest dep else wanted dep)"

definition getOutdated ::
  "('l \<Rightarrow> string list \<Rightarrow> Dependency list) \<Rightarrow> nat \<Rightarrow> 'a Flags_scheme \<Rightarrow> 'l \<Rightarrow> string list
     \<Rightarrow> Dependency list \<times> 'a Flags_scheme \<times> nat" where
  "getOutdated getOutdatedPackages lastIndex flags lockfile patterns =
     (case applyScope lastIndex flags
             (filter (isOutdated flags) (getOutdatedPackages lockfile patterns)) of
        (deps, flags1, lastIndex') \<Rightarrow>
          (map (\<lambda>dep. dep\<lparr>latestPattern := buildPatternToUpgradeTo dep (resetRangeFlags flags1)\<rparr>) deps,
           resetRangeFlags flags1, lastIndex'))"

subsection \<open>The lockfile\<close>

text \<open>
  Modelled from the spec: the content of a \<open>Lockfile\<close> (lockfile/wrapper.js is missing),
  "pattern \<open>\<rightarrow>\<close> \<open>{version, integrity, requires}\<close>".
\<close>

record LockEntry =
  entry_version :: string
  entry_integrity :: string
  entry_requires :: "(string \<times> string) list"

type_synonym Lockfile = "string \<rightharpoonup> LockEntry"

text \<open>
  Modelled from the spec: \<open>Lockfile.getLocked\<close> (lockfile/wrapper.js is missing),
  "\<open>getLocked(pattern) -> Entry?\<close>".
\<close>

definition getLocked :: "Lockfile \<Rightarrow> string \<Rightarrow> LockEntry option" where
  "getLocked lockfile pattern = lockfile pattern"

text \<open>
  Modelled from the spec: \<open>Lockfile.removePattern\<close> (lockfile/wrapper.js is missing),
  "evicts a pattern's entry so the next \<open>resolve\<close> treats it as fresh".
\<close>

definition removePattern :: "Lockfile \<Rightarrow> string \<Rightarrow> Lockfile" where
  "removePattern lockfile pattern = lockfile(pattern := None)"

subsection \<open>run\<close>

text \<open>
  The answer of \<open>PackageRequest.normalizePattern\<close>, which is not part of these sources and
  is a parameter of \<open>run\<close>; \<open>run\<close> reads its properties \<open>name\<close>, \<open>range\<close> and \<open>hasVersion\<close>.
\<close>

record NormalizedPattern =
  pattern_name :: string
  pattern_range :: string
  hasVersion :: bool

text \<open>
  Lines 41 to 65, the body of \<open>args.forEach\<close>: a requested pattern that carries a version
  overrides \<open>latestPattern\<close> of every dependency of that name, and is pushed as a new record
  when no dependency has that name.
\<close>

definition overridePattern ::
  "(string \<Rightarrow> NormalizedPattern) \<Rightarrow> Dependency list \<Rightarrow> string \<Rightarrow> Dependency list" where
  "overridePattern normalizePattern deps requestedPattern =
     (let normalized = normalizePattern requestedPattern;
          newPattern = pattern_name normalized @ ''@'' @ pattern_range normalized;
          found = list_ex (\<lambda>dep. hasVersion normalized \<and> name dep = pattern_name normalized) deps;
          deps' = map (\<lambda>dep. if hasVersion normalized \<and> name dep = pattern_name normalized
                              then dep\<lparr>latestPattern := newPattern\<rparr> else dep) deps
      in if hasVersion normalized \<and> \<not> found
         then deps' @ [\<lparr>name = pattern_name normalized, current = '''', wanted = '''',
                         latest = '''', url = '''', hint = '''', range' = '''',
                         latestPattern = newPattern\<rparr>]
         else deps')"

text \<open>The dependencies that \<open>run\<close> upgrades: the answer of \<open>getOutdated\<close> after the overrides.\<close>

definition upgradeDeps ::
  "(string \<Rightarrow> NormalizedPattern) \<Rightarrow> (Lockfile \<Rightarrow> string list \<Rightarrow> Dependency list) \<Rightarrow> nat
     \<Rightarrow> 'a Flags_scheme \<Rightarrow> Lockfile \<Rightarrow> string list \<Rightarrow> Dependency list" where
  "upgradeDeps normalizePattern getOutdatedPackages lastIndex flags lockfile args =
     foldl (overridePattern normalizePattern)
       (fst (getOutdated getOutdatedPackages lastIndex flags lockfile args)) args"

text \<open>
  What \<open>run\<close> ends with: the report that everything is up to date, or the construction and
  initialisation of \<open>Add\<close> with its arguments, its flags and the lockfile as \<open>run\<close> left it.
\<close>

datatype 'a RunResult =
  AllDependenciesUpToDate
  | AddInit "string list" "'a Flags_scheme" Lockfile

text \<open>
  \<open>Lockfile.fromDirectory\<close> answers the parameter \<open>lockfile\<close>. The second component of the
  result is the \<open>lastIndex\<close> that the call leaves in \<open>validScopeRegex\<close>.
\<close>

definition run ::
  "(string \<Rightarrow> NormalizedPattern) \<Rightarrow> (Lockfile \<Rightarrow> string list \<Rightarrow> Dependency list) \<Rightarrow> nat
     \<Rightarrow> 'a Flags_scheme \<Rightarrow> Lockfile \<Rightarrow> string list \<Rightarrow> 'a RunResult \<times> nat" where
  "run normalizePattern getOutdatedPackages lastIndex flags lockfile args =
     (case getOutdated getOutdatedPackages lastIndex flags lockfile args of
        (deps0, flags', lastIndex') \<Rightarrow>
          (let deps = foldl (overridePattern normalizePattern) deps0 args
           in if deps = [] then (AllDependenciesUpToDate, lastIndex')
              else
                (let lockfile' = foldl removePattern lockfile (map latestPattern deps);
                     addFlags = flags'\<lparr>force := Some True, Flags.latest := None\<rparr>;
                     addArgs = map latestPattern deps
                 in (AddInit addArgs addFlags lockfile', lastIndex'))))"

section \<open>Statements of the specification\<close>

text \<open>
  The normal form of a scope in the words of the specification: an \<open>@\<close> is put in front
  when the value does not start with one, a \<open>/\<close> behind when it does not end with one.
\<close>

definition normalizedScope :: "string \<Rightarrow> string" where
  "normalizedScope s =
     (if startsWith s ''@'' then [] else ''@'') @ s @ (if endsWith s ''/'' then [] else ''/'')"

text \<open>
  A valid scope in the words of the specification: \<open>@\<close>, one character of
  \<^verbatim>\<open>[a-zA-Z0-9-]\<close>, any number of characters of \<^verbatim>\<open>[a-zA-Z0-9_.-]\<close>, and \<open>/\<close>.
\<close>

definition validScope :: "string \<Rightarrow> bool" where
  "validScope s \<longleftrightarrow>
     (\<exists>c cs. s = CHR ''@'' # c # cs @ ''/'' \<and> scopeFirstChar c \<and> list_all scopeChar cs)"

text \<open>
  The leading operator of a declared range in the words of the specification: one of
  \<open>^\<close>, \<open>~\<close>, \<open>>\<close>, \<open>>=\<close>, \<open><=\<close>, or nothing for an exact version.
\<close>

definition leadingOperator :: "string \<Rightarrow> string" where
  "leadingOperator r =
     (if startsWith r ''>='' then ''>=''
      else if startsWith r ''<='' then ''<=''
      else if startsWith r ''^'' then ''^''
      else if startsWith r ''~'' then ''~''
      else if startsWith r ''>'' then ''>''
      else '''')"

text \<open>
  The pattern that preserves the operator, in the words of the amended statement: the
  returned record \<open>dep'\<close> is the outdated record \<open>dep\<close> but for its pattern; the pattern
  has the leading operator of the declared range when the range has the simple shape, is
  more than an operator alone and does not start with \<open>>=\<close>; it has \<open>^\<close> when the range
  does not have the simple shape.
\<close>

definition operatorPreserved :: "Dependency \<Rightarrow> Dependency \<Rightarrow> bool" where
  "operatorPreserved dep' dep \<longleftrightarrow>
     dep' = dep\<lparr>latestPattern := latestPattern dep'\<rparr> \<and>
     (versionBody (range' dep) \<and> \<not> startsWith (range' dep) ''>='' \<and>
        range' dep \<notin> set operatorAlternatives \<longrightarrow>
      latestPattern dep' =
        name dep @ ''@'' @ leadingOperator (range' dep) @ Dependency.latest dep) \<and>
     (\<not> versionBody (range' dep) \<longrightarrow>
      latestPattern dep' = name dep @ ''@^'' @ Dependency.latest dep)"

section \<open>Example data\<close>

definition noFlags :: Flags where
  "noFlags = \<lparr>scope = None, latest = None, exact = None, tilde = None, caret = None, force = None\<rparr>"

text \<open>A package locked at 1.2.0 whose latest published version is 2.0.0.\<close>

definition depName :: Dependency where
  "depName = \<lparr>name = ''name'', current = ''1.2.0'', wanted = ''1.3.0'', latest = ''2.0.0'',
     url = '''', hint = ''dependencies'', range' = ''^1.2.0'', latestPattern = ''''\<rparr>"

text \<open>The same package, declared with a range of two alternatives.\<close>

definition depExotic :: Dependency where
  "depExotic = \<lparr>name = ''name'', current = ''1.2.0'', wanted = ''1.4.2'', latest = ''2.0.0'',
     url = '''', hint = ''dependencies'', range' = ''~1.2.0 || ~1.4.0'', latestPattern = ''''\<rparr>"

definition depBabel :: Dependency where
  "depBabel = \<lparr>name = ''@babel/core'', current = ''7.0.0'', wanted = ''7.1.0'', latest = ''7.2.0'',
     url = '''', hint = ''dependencies'', range' = ''^7.0.0'', latestPattern = ''''\<rparr>"

definition depLodash :: Dependency where
  "depLodash = \<lparr>name = ''lodash'', current = ''4.17.0'', wanted = ''4.17.21'', latest = ''4.17.21'',
     url = '''', hint = ''dependencies'', range' = ''^4.17.0'', latestPattern = ''''\<rparr>"

text \<open>A lockfile, and a \<open>normalizePattern\<close> that knows one request with a version.\<close>

definition exampleLockfile :: Lockfile where
  "exampleLockfile =
     [''name@^1.2.0'' \<mapsto> \<lparr>entry_version = ''1.2.0'', entry_integrity = ''sha1-name'',
                              entry_requires = []\<rparr>,
      ''lodash@^4.17.0'' \<mapsto> \<lparr>entry_version = ''4.17.0'', entry_integrity = ''sha1-lodash'',
                                entry_requires = []\<rparr>,
      ''left-pad@^1.0.0'' \<mapsto> \<lparr>entry_version = ''1.0.0'', entry_integrity = ''sha1-left-pad'',
                                 entry_requires = []\<rparr>]"

definition exampleNormalize :: "string \<Rightarrow> NormalizedPattern" where
  "exampleNormalize p =
     (if p = ''lodash@4.17.21''
      then \<lparr>pattern_name = ''lodash'', pattern_range = ''4.17.21'', hasVersion = True\<rparr>
      else \<lparr>pattern_name = p, pattern_range = '''', hasVersion = False\<rparr>)"

section \<open>Theorems\<close>

lemma truthy_simps [simp]:
  "truthy (Some True)" "\<not> truthy (Some False)" "\<not> truthy None"
  by (simp_all add: truthy_def)

subsection \<open>What getOutdated returns\<close>

lemma endsWith_slash_Cons: "s \<noteq> [] \<Longrightarrow> endsWith (c # s) ''/'' = endsWith s ''/''"
  by (cases s rule: rev_cases) (auto simp: endsWith_def)

lemma normalizeScope_eq: "s \<noteq> [] \<Longrightarrow> normalizeScope s = normalizedScope s"
  by (simp add: normalizeScope_def normalizedScope_def Let_def endsWith_slash_Cons)

lemma applyScope_flags:
  "fst (snd (applyScope li flags deps)) =
     (if truthyStr (scope flags) then flags\<lparr>scope := map_option normalizeScope (scope flags)\<rparr>
      else flags)"
  by (simp add: applyScope_def truthyStr_def split: option.splits prod.splits)

lemma applyScope_latest:
  "Flags.latest (fst (snd (applyScope li flags deps))) = Flags.latest flags"
  by (simp add: applyScope_flags)

lemma applyScope_range_flags:
  "caret (fst (snd (applyScope li flags deps))) = caret flags"
  "tilde (fst (snd (applyScope li flags deps))) = tilde flags"
  "exact (fst (snd (applyScope li flags deps))) = exact flags"
  by (simp_all add: applyScope_flags)

lemma applyScope_subset: "set (fst (applyScope li flags deps)) \<subseteq> set deps"
  by (auto simp: applyScope_def split: option.splits prod.splits if_splits)

lemma resetRangeFlags_latest: "Flags.latest (resetRangeFlags f) = Flags.latest f"
  by (simp add: resetRangeFlags_def)

lemma getOutdated_flags:
  "fst (snd (getOutdated gop li flags lockfile patterns)) =
     resetRangeFlags
       (fst (snd (applyScope li flags (filter (isOutdated flags) (gop lockfile patterns)))))"
  by (simp add: getOutdated_def split: prod.splits)

lemma getOutdated_latest:
  "Flags.latest (fst (snd (getOutdated gop li flags lockfile patterns))) = Flags.latest flags"
  by (simp add: getOutdated_flags resetRangeFlags_latest applyScope_latest)

lemma getOutdated_range_flags:
  assumes "truthy (Flags.latest flags)"
  shows "caret (fst (snd (getOutdated gop li flags lockfile patterns))) = caret flags"
    and "tilde (fst (snd (getOutdated gop li flags lockfile patterns))) = tilde flags"
    and "exact (fst (snd (getOutdated gop li flags lockfile patterns))) = exact flags"
  using assms
  by (simp_all add: getOutdated_flags resetRangeFlags_def applyScope_latest
      applyScope_range_flags)

lemma getOutdated_deps:
  "fst (getOutdated gop li flags lockfile patterns) =
     map (\<lambda>dep. dep\<lparr>latestPattern :=
             buildPatternToUpgradeTo dep
               (fst (snd (getOutdated gop li flags lockfile patterns)))\<rparr>)
       (fst (applyScope li flags (filter (isOutdated flags) (gop lockfile patterns))))"
  by (simp add: getOutdated_def split: prod.splits)

lemma buildPattern_not_latest:
  "\<not> truthy (Flags.latest f) \<Longrightarrow> buildPatternToUpgradeTo dep f = name dep @ ''@'' @ range' dep"
  by (simp add: buildPatternToUpgradeTo_def)

lemma getOutdated_not_latest:
  assumes "\<not> truthy (Flags.latest flags)"
  shows "fst (getOutdated gop li flags lockfile patterns) =
     map (\<lambda>dep. dep\<lparr>latestPattern := name dep @ ''@'' @ range' dep\<rparr>)
       (fst (applyScope li flags (filter (isOutdated flags) (gop lockfile patterns))))"
  using assms by (subst getOutdated_deps) (simp add: buildPattern_not_latest getOutdated_latest)

lemma isOutdated_latest:
  "truthy (Flags.latest flags) \<Longrightarrow>
   isOutdated flags = (\<lambda>dep. current dep \<noteq> Dependency.latest dep)"
  by (simp add: isOutdated_def fun_eq_iff)

lemma isOutdated_wanted:
  "\<not> truthy (Flags.latest flags) \<Longrightarrow> isOutdated flags = (\<lambda>dep. current dep \<noteq> wanted dep)"
  by (simp add: isOutdated_def fun_eq_iff)

lemma applyScope_no_scope:
  "\<not> truthyStr (scope flags) \<Longrightarrow> fst (applyScope li flags deps) = deps"
  by (simp add: applyScope_def truthyStr_def split: option.splits)

lemma buildPattern_latest:
  assumes "truthy (Flags.latest f)"
  shows "buildPatternToUpgradeTo dep f =
     name dep @ ''@'' @
       (if truthy (caret f) then ''^''
        else if truthy (tilde f) then ''~''
        else if truthy (exact f) then ''''
        else getRangeOperator (range' dep)) @ Dependency.latest dep"
  using assms by (simp add: buildPatternToUpgradeTo_def)

text \<open>
  With \<open>--latest\<close>, the list returned is the list of the outdated packages that the scope
  block keeps, each with its pattern.
\<close>

lemma getOutdated_latest_deps:
  assumes "truthy (Flags.latest flags)"
  shows "fst (getOutdated gop li flags lockfile patterns) =
     map (\<lambda>dep. dep\<lparr>latestPattern := name dep @ ''@'' @
             (if truthy (caret flags) then ''^''
              else if truthy (tilde flags) then ''~''
              else if truthy (exact flags) then ''''
              else getRangeOperator (range' dep)) @ Dependency.latest dep\<rparr>)
       (fst (applyScope li flags
          (filter (\<lambda>dep. current dep \<noteq> Dependency.latest dep) (gop lockfile patterns))))"
  using assms
  by (subst getOutdated_deps)
     (simp add: buildPattern_latest getOutdated_latest getOutdated_range_flags isOutdated_latest)

subsection \<open>C1\<close>

text \<open>
  C1: with \<open>--latest\<close> and one of \<open>--caret\<close>, \<open>--tilde\<close>, \<open>--exact\<close>, the list that
  \<open>getOutdated\<close> returns is the list of the outdated packages (\<open>current\<close> differs from
  \<open>latest\<close>) that the scope block keeps, in their order, each with the pattern
  \<open>name@\<close> \<open>op\<close> \<open>latest\<close>: \<open>op\<close> is \<open>^\<close> with \<open>--caret\<close>, otherwise \<open>~\<close> with \<open>--tilde\<close>,
  otherwise, with \<open>--exact\<close>, empty. Without a scope the list is that of all outdated
  packages.
\<close>

theorem latest_explicit_operator:
  assumes "truthy (Flags.latest flags)"
    and "truthy (caret flags) \<or> truthy (tilde flags) \<or> truthy (exact flags)"
  shows "fst (getOutdated gop li flags lockfile patterns) =
           map (\<lambda>dep. dep\<lparr>latestPattern := name dep @ ''@'' @
                   (if truthy (caret flags) then ''^''
                    else if truthy (tilde flags) then ''~'' else '''') @
                   Dependency.latest dep\<rparr>)
             (fst (applyScope li flags
                (filter (\<lambda>dep. current dep \<noteq> Dependency.latest dep)
                   (gop lockfile patterns)))) \<and>
         (\<not> truthyStr (scope flags) \<longrightarrow>
            fst (getOutdated gop li flags lockfile patterns) =
              map (\<lambda>dep. dep\<lparr>latestPattern := name dep @ ''@'' @
                      (if truthy (caret flags) then ''^''
                       else if truthy (tilde flags) then ''~'' else '''') @
                      Dependency.latest dep\<rparr>)
                (filter (\<lambda>dep. current dep \<noteq> Dependency.latest dep)
                   (gop lockfile patterns)))"
  using assms by (auto simp: getOutdated_latest_deps applyScope_no_scope)

text \<open>
  Three packages, one of them up to date, upgraded with \<open>--latest --caret\<close> (and
  \<open>--tilde --exact\<close> as well, which lose against the caret): the package locked at 1.2.0
  with latest 2.0.0 gets the pattern \<open>name@^2.0.0\<close>, the other outdated package gets its
  own, and the package that is up to date is not returned.
\<close>

theorem latest_explicit_operator_witness:
  "truthy (Flags.latest (noFlags\<lparr>Flags.latest := Some True, exact := Some True,
       tilde := Some True, caret := Some True\<rparr>)) \<and>
   truthy (caret (noFlags\<lparr>Flags.latest := Some True, exact := Some True,
       tilde := Some True, caret := Some True\<rparr>)) \<and>
   \<not> truthyStr (scope (noFlags\<lparr>Flags.latest := Some True, exact := Some True,
       tilde := Some True, caret := Some True\<rparr>)) \<and>
   fst (getOutdated
          (\<lambda>_ _. [depName, depName\<lparr>name := ''fresh'', Dependency.latest := ''1.2.0''\<rparr>, depLodash])
          0 (noFlags\<lparr>Flags.latest := Some True, exact := Some True, tilde := Some True,
               caret := Some True\<rparr>) () []) =
     [depName\<lparr>latestPattern := ''name@^2.0.0''\<rparr>,
      depLodash\<lparr>latestPattern := ''lodash@^4.17.21''\<rparr>]"
proof -
  let ?flags = "noFlags\<lparr>Flags.latest := Some True, exact := Some True, tilde := Some True,
    caret := Some True\<rparr>"
  let ?gop = "\<lambda>(_::unit) (_::string list).
    [depName, depName\<lparr>name := ''fresh'', Dependency.latest := ''1.2.0''\<rparr>, depLodash]"
  have h1: "truthy (Flags.latest ?flags)" and h2: "truthy (caret ?flags)"
    and h3: "\<not> truthyStr (scope ?flags)"
    by (simp_all add: noFlags_def truthyStr_def)
  from latest_explicit_operator[of ?flags ?gop 0 "()" "[]"] h1 h2 h3
  have "fst (getOutdated ?gop 0 ?flags () []) =
      map (\<lambda>dep. dep\<lparr>latestPattern := name dep @ ''@'' @
              (if truthy (caret ?flags) then ''^''
               else if truthy (tilde ?flags) then ''~'' else '''') @
              Dependency.latest dep\<rparr>)
        (filter (\<lambda>dep. current dep \<noteq> Dependency.latest dep) (?gop () []))"
    by blast
  also have "\<dots> = [depName\<lparr>latestPattern := ''name@^2.0.0''\<rparr>,
      depLodash\<lparr>latestPattern := ''lodash@^4.17.21''\<rparr>]"
    by code_simp
  finally show ?thesis
    using h1 h2 h3 by blast
qed

subsection \<open>C2\<close>

lemma applyScope_range_flags_commute:
  "applyScope li (flags\<lparr>tilde := t, exact := e, caret := c\<rparr>) deps =
   (case applyScope li flags deps of
      (ds, f, l) \<Rightarrow> (ds, f\<lparr>tilde := t, exact := e, caret := c\<rparr>, l))"
  by (simp add: applyScope_def split: option.splits prod.splits)

text \<open>
  C2: without \<open>--latest\<close>, the flags \<open>--tilde\<close>, \<open>--exact\<close> and \<open>--caret\<close> have no effect on
  what \<open>getOutdated\<close> returns and leaves behind, and the list returned is the list of the
  outdated packages (\<open>current\<close> differs from \<open>wanted\<close>) that the scope block keeps, in their
  order, each with the pattern \<open>name@range\<close>, the declared range as it is. Without a scope
  the list is that of all outdated packages.
\<close>

theorem without_latest_range_kept:
  assumes "\<not> truthy (Flags.latest flags)"
  shows "getOutdated gop li (flags\<lparr>tilde := t, exact := e, caret := c\<rparr>) lockfile patterns =
           getOutdated gop li flags lockfile patterns \<and>
         fst (getOutdated gop li flags lockfile patterns) =
           map (\<lambda>dep. dep\<lparr>latestPattern := name dep @ ''@'' @ range' dep\<rparr>)
             (fst (applyScope li flags
                (filter (\<lambda>dep. current dep \<noteq> wanted dep) (gop lockfile patterns)))) \<and>
         (\<not> truthyStr (scope flags) \<longrightarrow>
            fst (getOutdated gop li flags lockfile patterns) =
              map (\<lambda>dep. dep\<lparr>latestPattern := name dep @ ''@'' @ range' dep\<rparr>)
                (filter (\<lambda>dep. current dep \<noteq> wanted dep) (gop lockfile patterns)))"
proof -
  have same_filter: "isOutdated (flags\<lparr>tilde := t, exact := e, caret := c\<rparr>) = isOutdated flags"
    by (simp add: isOutdated_def fun_eq_iff)
  obtain ds f l
    where scoped: "applyScope li flags (filter (isOutdated flags) (gop lockfile patterns)) = (ds, f, l)"
    by (metis prod_cases3)
  then have "Flags.latest f = Flags.latest flags"
    using applyScope_latest[of li flags "filter (isOutdated flags) (gop lockfile patterns)"]
    by simp
  with assms have "\<not> truthy (Flags.latest f)"
    by simp
  then have "getOutdated gop li (flags\<lparr>tilde := t, exact := e, caret := c\<rparr>) lockfile patterns =
      getOutdated gop li flags lockfile patterns"
    by (simp add: getOutdated_def same_filter applyScope_range_flags_commute scoped
        resetRangeFlags_def)
  moreover have "fst (getOutdated gop li flags lockfile patterns) =
      map (\<lambda>dep. dep\<lparr>latestPattern := name dep @ ''@'' @ range' dep\<rparr>)
        (fst (applyScope li flags
           (filter (\<lambda>dep. current dep \<noteq> wanted dep) (gop lockfile patterns))))"
    using assms by (simp add: getOutdated_not_latest isOutdated_wanted)
  ultimately show ?thesis
    by (simp add: applyScope_no_scope)
qed

text \<open>
  Three packages, one of them with \<open>current = wanted\<close>, and all three operator flags set
  without \<open>--latest\<close>: the two outdated packages are returned with their declared ranges.
\<close>

theorem without_latest_range_kept_witness:
  "\<not> truthy (Flags.latest noFlags) \<and> \<not> truthyStr (scope noFlags) \<and>
   fst (getOutdated
          (\<lambda>_ _. [depName, depName\<lparr>name := ''fresh'', wanted := ''1.2.0''\<rparr>, depExotic]) 0
          (noFlags\<lparr>tilde := Some True, exact := Some True, caret := Some True\<rparr>) () []) =
     [depName\<lparr>latestPattern := ''name@^1.2.0''\<rparr>,
      depExotic\<lparr>latestPattern := ''name@~1.2.0 || ~1.4.0''\<rparr>]"
proof -
  let ?gop = "\<lambda>(_::unit) (_::string list).
    [depName, depName\<lparr>name := ''fresh'', wanted := ''1.2.0''\<rparr>, depExotic]"
  let ?set = "noFlags\<lparr>tilde := Some True, exact := Some True, caret := Some True\<rparr>"
  have h: "\<not> truthy (Flags.latest noFlags)" and ns: "\<not> truthyStr (scope noFlags)"
    by (simp_all add: noFlags_def truthyStr_def)
  from without_latest_range_kept[OF h, of ?gop 0 "Some True" "Some True" "Some True" "()" "[]"] ns
  have same: "getOutdated ?gop 0 ?set () [] = getOutdated ?gop 0 noFlags () []"
    and pinned: "fst (getOutdated ?gop 0 noFlags () []) =
      map (\<lambda>dep. dep\<lparr>latestPattern := name dep @ ''@'' @ range' dep\<rparr>)
        (filter (\<lambda>dep. current dep \<noteq> wanted dep) (?gop () []))"
    by blast+
  have "fst (getOutdated ?gop 0 ?set () []) = fst (getOutdated ?gop 0 noFlags () [])"
    using same by simp
  also note pinned
  also have "map (\<lambda>dep. dep\<lparr>latestPattern := name dep @ ''@'' @ range' dep\<rparr>)
        (filter (\<lambda>dep. current dep \<noteq> wanted dep) (?gop () [])) =
     [depName\<lparr>latestPattern := ''name@^1.2.0''\<rparr>,
      depExotic\<lparr>latestPattern := ''name@~1.2.0 || ~1.4.0''\<rparr>]"
    by code_simp
  finally show ?thesis
    using h ns by blast
qed

subsection \<open>C3\<close>

lemma versionBody_append: "versionBody a \<Longrightarrow> versionBody b \<Longrightarrow> versionBody (a @ b)"
  by (simp add: versionBody_def)

lemma matchOperator_versionBody:
  "matchOperator alts r = Some alt \<Longrightarrow> \<forall>a \<in> set alts. versionBody a \<Longrightarrow> versionBody r"
proof (induction alts)
  case Nil
  then show ?case
    by simp
next
  case (Cons a alts)
  show ?case
  proof (cases "startsWith r a \<and> versionBody (drop (length a) r)")
    case True
    then have "r = a @ drop (length a) r"
      by (metis append_take_drop_id startsWith_def)
    moreover have "versionBody a"
      using Cons.prems(2) by simp
    ultimately show ?thesis
      using True versionBody_append by metis
  next
    case False
    with Cons show ?thesis
      by auto
  qed
qed

lemma operatorAlternatives_versionBody: "\<forall>a \<in> set operatorAlternatives. versionBody a"
  by (simp add: operatorAlternatives_def versionBody_def isSeparator_def)

text \<open>
  The regular expression matches exactly the ranges that are not empty and have no space,
  \<open>|\<close>, \<open>&\<close> or comma: the operators themselves are made of other characters.
\<close>

lemma exec_None_iff: "basicSemverOperatorRegex_exec r = None \<longleftrightarrow> \<not> versionBody r"
  using matchOperator_versionBody[OF _ operatorAlternatives_versionBody, of r]
  by (auto simp: basicSemverOperatorRegex_exec_def split: option.splits)

lemma getRangeOperator_exotic: "\<not> versionBody r \<Longrightarrow> getRangeOperator r = ''^''"
  using exec_None_iff[of r] by (simp add: getRangeOperator_def)

lemma getRangeOperator_simple:
  assumes "versionBody r" and "\<not> startsWith r ''>=''" and "r \<notin> set operatorAlternatives"
  shows "getRangeOperator r = leadingOperator r"
proof (cases r)
  case Nil
  with assms show ?thesis
    by (simp add: versionBody_def)
next
  case (Cons c cs)
  note r = Cons
  show ?thesis
  proof (cases cs)
    case Nil
    with r assms show ?thesis
      by (auto simp: getRangeOperator_def basicSemverOperatorRegex_exec_def
          operatorAlternatives_def leadingOperator_def startsWith_def versionBody_def)
  next
    case (Cons d ds)
    with r assms show ?thesis
      by (cases ds)
        (auto simp: getRangeOperator_def basicSemverOperatorRegex_exec_def
          operatorAlternatives_def leadingOperator_def startsWith_def versionBody_def)
  qed
qed

text \<open>
  The alternative \<open>>\<close> stands before \<open>>=\<close> in the group, and the tail accepts \<open>=\<close>: the
  operator found in a range that starts with \<open>>=\<close> is \<open>>\<close>.
\<close>

lemma getRangeOperator_greater_equal:
  "getRangeOperator ''>=1.2.0'' = ''>'' \<and> leadingOperator ''>=1.2.0'' = ''>=''"
  by code_simp

text \<open>
  C3, as stated, fails: with \<open>--latest\<close> and no operator flag, the range
  \<open>~1.2.0 || ~1.4.0\<close> has the leading operator \<open>~\<close>, and the pattern built is
  \<open>name@^2.0.0\<close>, not \<open>name@~2.0.0\<close>.
\<close>

theorem exotic_range_operator_counterexample:
  "fst (getOutdated (\<lambda>_ _. [depExotic]) 0 (noFlags\<lparr>Flags.latest := Some True\<rparr>) () []) =
     [depExotic\<lparr>latestPattern := ''name@^2.0.0''\<rparr>] \<and>
   name depExotic @ ''@'' @ leadingOperator (range' depExotic) @ Dependency.latest depExotic =
     ''name@~2.0.0'' \<and>
   ''name@^2.0.0'' \<noteq> ''name@~2.0.0''"
  by code_simp

text \<open>
  C3, amended: with \<open>--latest\<close> and none of \<open>--caret\<close>, \<open>--tilde\<close>, \<open>--exact\<close>, the list that
  \<open>getOutdated\<close> returns is, record by record, the list of the outdated packages that the
  scope block keeps (without a scope, of all outdated packages), with the patterns set:
  the pattern is \<open>name@\<close> \<open>op\<close> \<open>latest\<close>, where \<open>op\<close> is the leading operator of the declared
  range when the range has the simple shape (it is not empty and has no space, \<open>|\<close>, \<open>&\<close>
  or comma), is more than an operator alone and does not start with \<open>>=\<close>; and \<open>op\<close> is
  \<open>^\<close> when the range does not have the simple shape.
\<close>

theorem latest_operator_preserved:
  assumes "truthy (Flags.latest flags)"
    and "\<not> truthy (caret flags)" and "\<not> truthy (tilde flags)" and "\<not> truthy (exact flags)"
  shows "list_all2 operatorPreserved
           (fst (getOutdated gop li flags lockfile patterns))
           (fst (applyScope li flags
              (filter (\<lambda>dep. current dep \<noteq> Dependency.latest dep)
                 (gop lockfile patterns)))) \<and>
         (\<not> truthyStr (scope flags) \<longrightarrow>
            list_all2 operatorPreserved
              (fst (getOutdated gop li flags lockfile patterns))
              (filter (\<lambda>dep. current dep \<noteq> Dependency.latest dep) (gop lockfile patterns)))"
proof -
  have "operatorPreserved
      (dep\<lparr>latestPattern := name dep @ ''@'' @ getRangeOperator (range' dep) @
          Dependency.latest dep\<rparr>) dep" for dep
    by (simp add: operatorPreserved_def getRangeOperator_simple getRangeOperator_exotic)
  then have "list_all2 operatorPreserved
      (fst (getOutdated gop li flags lockfile patterns))
      (fst (applyScope li flags
         (filter (\<lambda>dep. current dep \<noteq> Dependency.latest dep) (gop lockfile patterns))))"
    using assms by (simp add: getOutdated_latest_deps list_all2_map1 list_all2_same)
  then show ?thesis
    by (auto simp: applyScope_no_scope)
qed

text \<open>
  Three packages, one of them up to date, upgraded with \<open>--latest\<close> alone: the range
  \<open>^7.0.0\<close> keeps its caret, the range \<open>~1.2.0 || ~1.4.0\<close> gets the caret.
\<close>

theorem latest_operator_preserved_witness:
  "truthy (Flags.latest (noFlags\<lparr>Flags.latest := Some True\<rparr>)) \<and>
   \<not> truthy (caret (noFlags\<lparr>Flags.latest := Some True\<rparr>)) \<and>
   \<not> truthy (tilde (noFlags\<lparr>Flags.latest := Some True\<rparr>)) \<and>
   \<not> truthy (exact (noFlags\<lparr>Flags.latest := Some True\<rparr>)) \<and>
   \<not> truthyStr (scope (noFlags\<lparr>Flags.latest := Some True\<rparr>)) \<and>
   versionBody (range' depBabel) \<and> \<not> startsWith (range' depBabel) ''>='' \<and>
   range' depBabel \<notin> set operatorAlternatives \<and> leadingOperator (range' depBabel) = ''^'' \<and>
   \<not> versionBody (range' depExotic) \<and>
   fst (getOutdated
          (\<lambda>_ _. [depBabel, depName\<lparr>name := ''fresh'', Dependency.latest := ''1.2.0''\<rparr>, depExotic])
          0 (noFlags\<lparr>Flags.latest := Some True\<rparr>) () []) =
     [depBabel\<lparr>latestPattern := ''@babel/core@^7.2.0''\<rparr>,
      depExotic\<lparr>latestPattern := ''name@^2.0.0''\<rparr>]"
proof -
  let ?flags = "noFlags\<lparr>Flags.latest := Some True\<rparr>"
  let ?gop = "\<lambda>(_::unit) (_::string list).
    [depBabel, depName\<lparr>name := ''fresh'', Dependency.latest := ''1.2.0''\<rparr>, depExotic]"
  have fl: "truthy (Flags.latest ?flags)" "\<not> truthy (caret ?flags)"
    "\<not> truthy (tilde ?flags)" "\<not> truthy (exact ?flags)"
    and ns: "\<not> truthyStr (scope ?flags)"
    by (simp_all add: noFlags_def truthyStr_def)
  have shape: "versionBody (range' depBabel)" "\<not> startsWith (range' depBabel) ''>=''"
    "range' depBabel \<notin> set operatorAlternatives" "leadingOperator (range' depBabel) = ''^''"
    "\<not> versionBody (range' depExotic)"
    by code_simp+
  have outdated: "filter (\<lambda>dep. current dep \<noteq> Dependency.latest dep) (?gop () []) =
      [depBabel, depExotic]"
    by code_simp
  from latest_operator_preserved[OF fl, of ?gop 0 "()" "[]"] ns
  have "list_all2 operatorPreserved (fst (getOutdated ?gop 0 ?flags () [])) [depBabel, depExotic]"
    unfolding outdated by blast
  then obtain d1 d2
    where res: "fst (getOutdated ?gop 0 ?flags () []) = [d1, d2]"
      and p1: "operatorPreserved d1 depBabel" and p2: "operatorPreserved d2 depExotic"
    by (auto simp: list_all2_Cons2)
  from p1 shape have "latestPattern d1 = ''@babel/core@^7.2.0''"
    by (simp add: operatorPreserved_def) (simp add: depBabel_def)
  with p1 have d1: "d1 = depBabel\<lparr>latestPattern := ''@babel/core@^7.2.0''\<rparr>"
    by (simp add: operatorPreserved_def)
  from p2 shape have "latestPattern d2 = ''name@^2.0.0''"
    by (simp add: operatorPreserved_def) (simp add: depExotic_def)
  with p2 have d2: "d2 = depExotic\<lparr>latestPattern := ''name@^2.0.0''\<rparr>"
    by (simp add: operatorPreserved_def)
  from res d1 d2 fl ns shape show ?thesis
    by simp
qed

subsection \<open>C4 and C5\<close>

lemma scopeTail_valid: "list_all scopeChar cs \<Longrightarrow> scopeTail (cs @ ''/'')"
  by (induction cs) (auto simp: scopeChar_def isAlnum_def)

lemma matchAt_valid: "validScope s \<Longrightarrow> validScopeRegex_matchAt s 0 = Some (length s)"
  by (auto simp: validScope_def validScopeRegex_matchAt_def scopeTail_valid)

lemma test_fresh: "validScope s \<Longrightarrow> validScopeRegex_test 0 s = (True, length s)"
  by (simp add: validScopeRegex_test_def upt_conv_Cons matchAt_valid del: upt_Suc)

lemma firstMatch_positive: "\<forall>i \<in> set is. 0 < i \<Longrightarrow> firstMatch s is = None"
  by (induction "is") (auto simp: validScopeRegex_matchAt_def)

lemma test_stale: "0 < li \<Longrightarrow> validScopeRegex_test li s = (False, 0)"
proof -
  assume li: "0 < li"
  then have "firstMatch s [li ..< Suc (length s)] = None"
    by (intro firstMatch_positive) auto
  then show ?thesis
    by (simp add: validScopeRegex_test_def del: upt_Suc)
qed

lemma applyScope_fresh:
  assumes "scope flags = Some s" and "s \<noteq> []" and "validScope (normalizedScope s)"
  shows "applyScope 0 flags deps =
     (filter (\<lambda>dep. startsWith (name dep) (normalizedScope s)) deps,
      flags\<lparr>scope := Some (normalizedScope s)\<rparr>, length (normalizedScope s))"
  using assms by (simp add: applyScope_def normalizeScope_eq test_fresh)

lemma applyScope_stale:
  assumes "scope flags = Some s" and "s \<noteq> []" and "0 < li"
  shows "applyScope li flags deps = (deps, flags\<lparr>scope := Some (normalizedScope s)\<rparr>, 0)"
  using assms by (simp add: applyScope_def normalizeScope_eq test_stale)

text \<open>
  A call that finds \<open>lastIndex = 0\<close>, as the first call of a process does, filters by the
  prefix, and leaves the length of the scope in \<open>lastIndex\<close>.
\<close>

lemma scope_filter_fresh:
  assumes "scope flags = Some s" and "s \<noteq> []" and "validScope (normalizedScope s)"
  shows "map name (fst (getOutdated gop 0 flags lockfile patterns)) =
     filter (\<lambda>n. startsWith n (normalizedScope s))
       (map name (filter (isOutdated flags) (gop lockfile patterns)))"
    and "snd (snd (getOutdated gop 0 flags lockfile patterns)) = length (normalizedScope s)"
proof -
  show "map name (fst (getOutdated gop 0 flags lockfile patterns)) =
     filter (\<lambda>n. startsWith n (normalizedScope s))
       (map name (filter (isOutdated flags) (gop lockfile patterns)))"
    by (subst getOutdated_deps) (simp add: applyScope_fresh[OF assms] filter_map comp_def)
  show "snd (snd (getOutdated gop 0 flags lockfile patterns)) = length (normalizedScope s)"
    by (simp add: getOutdated_def applyScope_fresh[OF assms])
qed

text \<open>
  A call that finds \<open>lastIndex > 0\<close> does not filter, whatever the scope: the search starts
  behind index 0, where \<^verbatim>\<open>^\<close> cannot hold.
\<close>

lemma scope_filter_stale:
  assumes "scope flags = Some s" and "s \<noteq> []" and "0 < li"
  shows "map name (fst (getOutdated gop li flags lockfile patterns)) =
     map name (filter (isOutdated flags) (gop lockfile patterns))"
  by (subst getOutdated_deps) (simp add: applyScope_stale[OF assms] comp_def)

text \<open>
  C4, at the failing input: a call with \<open>--scope babel\<close> leaves \<open>lastIndex = 7\<close>; the next
  call with \<open>--scope babel\<close> returns \<open>lodash\<close> as well, whose name does not start with the
  normalised scope \<open>@babel/\<close>.
\<close>

theorem scope_filter_skipped_after_match:
  "snd (snd (getOutdated (\<lambda>_ _. [depBabel, depLodash]) 0
       (noFlags\<lparr>scope := Some ''babel''\<rparr>) () [])) = 7 \<and>
   map name (fst (getOutdated (\<lambda>_ _. [depBabel, depLodash]) 7
       (noFlags\<lparr>scope := Some ''babel''\<rparr>) () [])) = [''@babel/core'', ''lodash''] \<and>
   normalizedScope ''babel'' = ''@babel/'' \<and>
   validScopeRegex_matchAt ''@babel/'' 0 = Some 7 \<and>
   \<not> startsWith ''lodash'' ''@babel/''"
  by code_simp

text \<open>
  C5, at the failing input: two successive calls with the same flags, lockfile, patterns
  and outdated packages, the second from the \<open>lastIndex\<close> that the first left, return
  different lists.
\<close>

theorem getOutdated_twice_differs:
  "fst (getOutdated (\<lambda>_ _. [depBabel, depLodash]) 0
         (noFlags\<lparr>scope := Some ''@babel/''\<rparr>) () []) =
     [depBabel\<lparr>latestPattern := ''@babel/core@^7.0.0''\<rparr>] \<and>
   fst (getOutdated (\<lambda>_ _. [depBabel, depLodash])
         (snd (snd (getOutdated (\<lambda>_ _. [depBabel, depLodash]) 0
            (noFlags\<lparr>scope := Some ''@babel/''\<rparr>) () [])))
         (noFlags\<lparr>scope := Some ''@babel/''\<rparr>) () []) =
     [depBabel\<lparr>latestPattern := ''@babel/core@^7.0.0''\<rparr>,
      depLodash\<lparr>latestPattern := ''lodash@^4.17.0''\<rparr>]"
  by code_simp

subsection \<open>C6\<close>

lemma foldl_removePattern: "foldl removePattern lockfile ps = lockfile |` (- set ps)"
  by (induction ps arbitrary: lockfile) (auto simp: removePattern_def restrict_map_def fun_eq_iff)

lemma upgradeDeps_run:
  "fst (run np gop li flags lockfile args) =
     (if upgradeDeps np gop li flags lockfile args = [] then AllDependenciesUpToDate
      else AddInit (map latestPattern (upgradeDeps np gop li flags lockfile args))
             ((fst (snd (getOutdated gop li flags lockfile args)))
                \<lparr>force := Some True, Flags.latest := None\<rparr>)
             (lockfile |` (- set (map latestPattern (upgradeDeps np gop li flags lockfile args)))))"
  by (simp add: run_def upgradeDeps_def Let_def foldl_removePattern split: prod.splits)

text \<open>
  C6: when no dependency is left to upgrade, \<open>run\<close> reports that and constructs no \<open>Add\<close>.
  Otherwise \<open>Add\<close> is constructed with the patterns of the dependencies and with a
  lockfile in which the pattern of every dependency has no entry, and in which every
  other pattern has the entry it had.
\<close>

theorem run_evicts_upgraded_patterns:
  "(upgradeDeps np gop li flags lockfile args = [] \<longrightarrow>
      fst (run np gop li flags lockfile args) = AllDependenciesUpToDate) \<and>
   (upgradeDeps np gop li flags lockfile args \<noteq> [] \<longrightarrow>
      (\<exists>addFlags lockfile'.
         fst (run np gop li flags lockfile args) =
           AddInit (map latestPattern (upgradeDeps np gop li flags lockfile args))
             addFlags lockfile' \<and>
         (\<forall>dep \<in> set (upgradeDeps np gop li flags lockfile args).
            getLocked lockfile' (latestPattern dep) = None) \<and>
         (\<forall>p. p \<notin> latestPattern ` set (upgradeDeps np gop li flags lockfile args) \<longrightarrow>
            getLocked lockfile' p = getLocked lockfile p)))"
  by (simp add: upgradeDeps_run getLocked_def restrict_map_def)

text \<open>
  An upgrade of two packages, one of them requested as \<open>lodash@4.17.21\<close>: the patterns
  \<open>name@^1.2.0\<close> and \<open>lodash@4.17.21\<close> are evicted, the entries of \<open>lodash@^4.17.0\<close> and
  \<open>left-pad@^1.0.0\<close> stay.
\<close>

theorem run_evicts_upgraded_patterns_witness:
  "upgradeDeps exampleNormalize (\<lambda>_ _. [depName, depLodash]) 0 noFlags exampleLockfile
       [''lodash@4.17.21''] =
     [depName\<lparr>latestPattern := ''name@^1.2.0''\<rparr>,
      depLodash\<lparr>latestPattern := ''lodash@4.17.21''\<rparr>] \<and>
   (\<exists>addFlags lockfile'.
      fst (run exampleNormalize (\<lambda>_ _. [depName, depLodash]) 0 noFlags exampleLockfile
             [''lodash@4.17.21'']) =
        AddInit [''name@^1.2.0'', ''lodash@4.17.21''] addFlags lockfile' \<and>
      getLocked lockfile' ''name@^1.2.0'' = None \<and>
      getLocked lockfile' ''lodash@4.17.21'' = None \<and>
      getLocked lockfile' ''lodash@^4.17.0'' = getLocked exampleLockfile ''lodash@^4.17.0'' \<and>
      getLocked lockfile' ''left-pad@^1.0.0'' = getLocked exampleLockfile ''left-pad@^1.0.0'')"
proof -
  let ?gop = "\<lambda>(_::Lockfile) (_::string list). [depName, depLodash]"
  let ?args = "[''lodash@4.17.21'']"
  let ?deps = "upgradeDeps exampleNormalize ?gop 0 noFlags exampleLockfile ?args"
  have ev: "?deps = [depName\<lparr>latestPattern := ''name@^1.2.0''\<rparr>,
      depLodash\<lparr>latestPattern := ''lodash@4.17.21''\<rparr>]"
    by (simp add: upgradeDeps_def) code_simp
  then have "?deps \<noteq> []"
    by simp
  with run_evicts_upgraded_patterns[of exampleNormalize ?gop 0 noFlags exampleLockfile ?args]
  obtain addFlags lockfile'
    where r: "fst (run exampleNormalize ?gop 0 noFlags exampleLockfile ?args) =
        AddInit (map latestPattern ?deps) addFlags lockfile'"
      and evicted: "\<forall>dep \<in> set ?deps. getLocked lockfile' (latestPattern dep) = None"
      and kept: "\<forall>p. p \<notin> latestPattern ` set ?deps \<longrightarrow>
        getLocked lockfile' p = getLocked exampleLockfile p"
    by blast
  from r have r': "fst (run exampleNormalize ?gop 0 noFlags exampleLockfile ?args) =
      AddInit [''name@^1.2.0'', ''lodash@4.17.21''] addFlags lockfile'"
    unfolding ev by simp
  from evicted have e: "getLocked lockfile' ''name@^1.2.0'' = None"
    "getLocked lockfile' ''lodash@4.17.21'' = None"
    unfolding ev by simp_all
  from kept have k:
    "getLocked lockfile' ''lodash@^4.17.0'' = getLocked exampleLockfile ''lodash@^4.17.0''"
    "getLocked lockfile' ''left-pad@^1.0.0'' = getLocked exampleLockfile ''left-pad@^1.0.0''"
    unfolding ev by simp_all
  from ev r' e k show ?thesis
    by blast
qed

subsection \<open>C9\<close>

text \<open>
  C9: every dependency that \<open>getOutdated\<close> returns is outdated in the selected field:
  with \<open>--latest\<close> its \<open>current\<close> differs from its \<open>latest\<close>, without \<open>--latest\<close> its
  \<open>current\<close> differs from its \<open>wanted\<close>.
\<close>

theorem returned_deps_outdated:
  assumes "dep \<in> set (fst (getOutdated gop li flags lockfile patterns))"
  shows "(truthy (Flags.latest flags) \<longrightarrow> current dep \<noteq> Dependency.latest dep) \<and>
         (\<not> truthy (Flags.latest flags) \<longrightarrow> current dep \<noteq> wanted dep)"
proof -
  from assms obtain d
    where d: "d \<in> set (fst (applyScope li flags (filter (isOutdated flags) (gop lockfile patterns))))"
      and dep: "dep = d\<lparr>latestPattern :=
        buildPatternToUpgradeTo d (fst (snd (getOutdated gop li flags lockfile patterns)))\<rparr>"
    by (subst (asm) getOutdated_deps) auto
  from d applyScope_subset have "isOutdated flags d"
    by fastforce
  with dep show ?thesis
    by (auto simp: isOutdated_def split: if_splits)
qed

text \<open>
  Of two packages with \<open>current = latest\<close> in one only, \<open>--latest\<close> returns the other one.
\<close>

theorem returned_deps_outdated_witness:
  "fst (getOutdated (\<lambda>_ _. [depName, depName\<lparr>name := ''fresh'', Dependency.latest := ''1.2.0''\<rparr>]) 0
          (noFlags\<lparr>Flags.latest := Some True\<rparr>) () []) =
     [depName\<lparr>latestPattern := ''name@^2.0.0''\<rparr>] \<and>
   current (depName\<lparr>latestPattern := ''name@^2.0.0''\<rparr>) \<noteq>
     Dependency.latest (depName\<lparr>latestPattern := ''name@^2.0.0''\<rparr>)"
proof -
  let ?gop = "\<lambda>(_::unit) (_::string list). [depName, depName\<lparr>name := ''fresh'', Dependency.latest := ''1.2.0''\<rparr>]"
  let ?flags = "noFlags\<lparr>Flags.latest := Some True\<rparr>"
  have ev: "fst (getOutdated ?gop 0 ?flags () []) = [depName\<lparr>latestPattern := ''name@^2.0.0''\<rparr>]"
    by code_simp
  then have "depName\<lparr>latestPattern := ''name@^2.0.0''\<rparr> \<in> set (fst (getOutdated ?gop 0 ?flags () []))"
    by simp
  from returned_deps_outdated[OF this] ev show ?thesis
    by simp
qed

subsection \<open>C10\<close>

text \<open>
  C10: the flags that \<open>getOutdated\<close> leaves behind are the flags it was given, except that
  a supplied (truthy) \<open>scope\<close> is in normal form, with a leading \<open>@\<close> and a trailing \<open>/\<close>,
  and that without \<open>--latest\<close> the flags \<open>tilde\<close>, \<open>exact\<close> and \<open>caret\<close> are \<open>false\<close>. No
  other property changes: \<open>latest\<close>, \<open>force\<close> and the rest of the object are as before.
\<close>

theorem getOutdated_flags_frame:
  "fst (snd (getOutdated gop li flags lockfile patterns)) =
     flags\<lparr>scope := (if truthyStr (scope flags) then map_option normalizedScope (scope flags)
                      else scope flags),
           tilde := (if truthy (Flags.latest flags) then tilde flags else Some False),
           exact := (if truthy (Flags.latest flags) then exact flags else Some False),
           caret := (if truthy (Flags.latest flags) then caret flags else Some False)\<rparr>"
  by (cases "scope flags")
     (simp_all add: getOutdated_flags applyScope_flags resetRangeFlags_def truthyStr_def
        normalizeScope_eq)

theorem getOutdated_flags_frame_witness:
  "fst (snd (getOutdated (\<lambda>_ _. [depBabel, depLodash]) 0
      (noFlags\<lparr>scope := Some ''babel'', caret := Some True, force := Some False\<rparr>) () [])) =
   noFlags\<lparr>scope := Some ''@babel/'', tilde := Some False, exact := Some False,
     caret := Some False, force := Some False\<rparr>"
  by (subst getOutdated_flags_frame)
     (simp add: noFlags_def truthyStr_def normalizedScope_def startsWith_def endsWith_def)

end
